theory Spec2Isabelle
  imports Complex_Main
begin

section \<open>Python values shared by both scripts\<close>

text \<open>
  The exceptions the two scripts can meet. Every \<^verbatim>\<open>raise\<close> of the interpreter or of a
  library call is a value \<open>Inl e\<close> of a sum type; a normal return is \<open>Inr v\<close>.
\<close>

datatype py_exc = TypeError | IndexError | ValueError | ZeroDivisionError

section \<open>tetracyclic_analysis.py: the Alpha graph\<close>

subsection \<open>The part of networkx.Graph the script uses\<close>

text \<open>
  An undirected simple graph as networkx keeps it: nodes in insertion order, each
  undirected edge stored once. \<^verbatim>\<open>add_node\<close> ignores a node that is present,
  \<^verbatim>\<open>add_edge\<close> first adds both endpoints as nodes and ignores an edge that is present
  in either orientation. Neither of them rejects a self-loop or an unknown endpoint.
\<close>

record nx_graph =
  nx_nodes :: "int list"
  nx_edges :: "(int \<times> int) list"

definition nx_Graph :: nx_graph where
  "nx_Graph = \<lparr>nx_nodes = [], nx_edges = []\<rparr>"

definition add_node :: "nx_graph \<Rightarrow> int \<Rightarrow> nx_graph" where
  "add_node g n = (if n \<in> set (nx_nodes g) then g else g\<lparr>nx_nodes := nx_nodes g @ [n]\<rparr>)"

definition has_edge :: "nx_graph \<Rightarrow> int \<Rightarrow> int \<Rightarrow> bool" where
  "has_edge g u v = ((u, v) \<in> set (nx_edges g) \<or> (v, u) \<in> set (nx_edges g))"

definition add_edge :: "nx_graph \<Rightarrow> int \<times> int \<Rightarrow> nx_graph" where
  "add_edge g e =
     (let g' = add_node (add_node g (fst e)) (snd e)
      in if has_edge g' (fst e) (snd e) then g'
         else g'\<lparr>nx_edges := nx_edges g' @ [e]\<rparr>)"

definition add_nodes_from :: "nx_graph \<Rightarrow> int list \<Rightarrow> nx_graph" where
  "add_nodes_from g ns = foldl add_node g ns"

definition add_edges_from :: "nx_graph \<Rightarrow> (int \<times> int) list \<Rightarrow> nx_graph" where
  "add_edges_from g es = foldl add_edge g es"

definition number_of_nodes :: "nx_graph \<Rightarrow> nat" where
  "number_of_nodes g = length (nx_nodes g)"

definition number_of_edges :: "nx_graph \<Rightarrow> nat" where
  "number_of_edges g = length (nx_edges g)"

subsection \<open>The edge list as the source spells it\<close>

text \<open>
  The elements of the list display bound to \<^verbatim>\<open>edges\<close> in \<^verbatim>\<open>create_alpha_graph\<close>. An
  element is a tuple display \<^verbatim>\<open>(a, b)\<close> or a call \<^verbatim>\<open>f(args)\<close>. The source has no comma
  after \<^verbatim>\<open>(3, 6)\<close>, so the sixth element is the call \<^verbatim>\<open>(3, 6)(5, 2)\<close>, and the
  display has eight elements. Calling a tuple raises TypeError.
\<close>

datatype elem_expr = TupleLit int int | CallExpr elem_expr "int list"

fun eval_elem :: "elem_expr \<Rightarrow> py_exc + (int \<times> int)" where
  "eval_elem (TupleLit a b) = Inr (a, b)"
| "eval_elem (CallExpr f args) =
     (case eval_elem f of Inl e \<Rightarrow> Inl e | Inr t \<Rightarrow> Inl TypeError)"

fun eval_list :: "elem_expr list \<Rightarrow> py_exc + (int \<times> int) list" where
  "eval_list [] = Inr []"
| "eval_list (x # xs) =
     (case eval_elem x of
        Inl e \<Rightarrow> Inl e
      | Inr v \<Rightarrow> (case eval_list xs of Inl e \<Rightarrow> Inl e | Inr vs \<Rightarrow> Inr (v # vs)))"

definition alpha_nodes :: "int list" where
  "alpha_nodes = [1, 2, 3, 4, 5, 6]"

definition alpha_edges_expr :: "elem_expr list" where
  "alpha_edges_expr =
     [TupleLit 1 2, TupleLit 1 4, TupleLit 1 5,
      TupleLit 3 2, TupleLit 3 4, CallExpr (TupleLit 3 6) [5, 2],
      TupleLit 5 4, TupleLit 5 6]"


subsection \<open>AlphaGraphAnalysis\<close>

text \<open>
  \<^verbatim>\<open>create_alpha_graph\<close> evaluates the two list displays and then makes its three
  networkx calls, \<^verbatim>\<open>nx.Graph()\<close>, \<^verbatim>\<open>add_nodes_from\<close> and \<^verbatim>\<open>add_edges_from\<close>.
\<close>

definition create_alpha_graph :: "py_exc + nx_graph" where
  "create_alpha_graph =
     (case eval_list alpha_edges_expr of
        Inl e \<Rightarrow> Inl e
      | Inr edges \<Rightarrow> Inr (add_edges_from (add_nodes_from nx_Graph alpha_nodes) edges))"

record AlphaGraphAnalysis =
  G :: nx_graph
  expected_g_from_paper :: real

text \<open>
  The attribute assignments of \<^verbatim>\<open>__init__\<close>, given the graph that
  \<^verbatim>\<open>create_alpha_graph\<close> returned: the graph is stored, and the benchmark is set to
  \<^verbatim>\<open>17/49\<close>. Python's \<^verbatim>\<open>17/49\<close> is the float64 nearest to the fraction; it is read
  here as the fraction itself.
\<close>

definition init_attributes :: "nx_graph \<Rightarrow> AlphaGraphAnalysis" where
  "init_attributes g = \<lparr>G = g, expected_g_from_paper = 17 / 49\<rparr>"

definition AlphaGraphAnalysis_init :: "py_exc + AlphaGraphAnalysis" where
  "AlphaGraphAnalysis_init =
     (case create_alpha_graph of
        Inl e \<Rightarrow> Inl e
      | Inr g \<Rightarrow> Inr (init_attributes g))"

text \<open>
  Python's fixed-point format \<^verbatim>\<open>{x:.kf}\<close>: the value is rounded to \<open>k\<close> decimals,
  a tie going to the even neighbour, and printed with its sign, the digits of the
  integer part, and \<open>k\<close> decimals after the point.
\<close>

definition round_half_even :: "real \<Rightarrow> int" where
  "round_half_even q =
     (let f = \<lfloor>q\<rfloor>
      in if q - of_int f < 1 / 2 then f
         else if 1 / 2 < q - of_int f then f + 1
         else if even f then f else f + 1)"

fun digit_chars :: "nat \<Rightarrow> string" where
  "digit_chars n =
     (if n < 10 then [''0123456789'' ! n]
      else digit_chars (n div 10) @ [''0123456789'' ! (n mod 10)])"

declare digit_chars.simps [simp del]

fun frac_digits :: "nat \<Rightarrow> nat \<Rightarrow> string" where
  "frac_digits 0 n = []"
| "frac_digits (Suc k) n = frac_digits k (n div 10) @ [''0123456789'' ! (n mod 10)]"

definition format_f :: "nat \<Rightarrow> real \<Rightarrow> string" where
  "format_f k x =
     (let n = nat (round_half_even (\<bar>x\<bar> * 10 ^ k))
      in (if x < 0 then ''-'' else []) @ digit_chars (n div 10 ^ k)
         @ (if k = 0 then [] else ''.'' @ frac_digits k (n mod 10 ^ k)))"

text \<open>
  The line that \<^verbatim>\<open>calculate_theoretical_g_factor\<close> prints for the benchmark,
  \<^verbatim>\<open>f"Expected from paper:  {self.expected_g_from_paper:.6f} (109/245)"\<close>, and the
  title that \<^verbatim>\<open>visualize_graph\<close> gives the plot. The title is a string of bytes
  here: its quotation marks are the byte 0x22 and its approximation sign is the three
  bytes of U+2248 in UTF-8.
\<close>

definition expected_line :: "AlphaGraphAnalysis \<Rightarrow> string" where
  "expected_line a =
     ''Expected from paper:  '' @ format_f 6 (expected_g_from_paper a) @ '' (109/245)''"

definition plot_title :: string where
  "plot_title =
     ''Tetracyclic '' @ [CHR 0x22] @ ''Alpha'' @ [CHR 0x22] @ '' Polymer Graph (g ''
       @ [CHR 0xE2, CHR 0x89, CHR 0x88] @ '' 0.445)''"

definition cycle_rank_of :: "nx_graph \<Rightarrow> int" where
  "cycle_rank_of g = int (number_of_edges g) - int (number_of_nodes g) + 1"

text \<open>
  \<^verbatim>\<open>calculate_theoretical_g_factor\<close>. The trace of the pseudoinverse of the normalized
  Laplacian is computed by networkx, scipy and numpy; it is the parameter \<open>tr\<close>. The
  quotient \<^verbatim>\<open>3 / (e**2)\<close> of Python integers raises ZeroDivisionError at \<open>e = 0\<close>.
\<close>

definition calculate_theoretical_g_factor ::
  "(nx_graph \<Rightarrow> py_exc + real) \<Rightarrow> AlphaGraphAnalysis \<Rightarrow> py_exc + real" where
  "calculate_theoretical_g_factor tr a =
     (let e = int (number_of_edges (G a));
          cycle_rank = cycle_rank_of (G a)
      in case tr (G a) of
           Inl x \<Rightarrow> Inl x
         | Inr trace_L_plus \<Rightarrow>
             if e ^ 2 = 0 then Inl ZeroDivisionError
             else Inr ((3 / of_int (e ^ 2))
                       * (trace_L_plus + (of_int cycle_rank / 3) - (1 / 6))))"

text \<open>
  \<^verbatim>\<open>main\<close> of tetracyclic_analysis.py: construct the analyzer, then run the
  calculation. (The plot drawn in between does not change the analyzer.)
\<close>

definition analysis_main :: "(nx_graph \<Rightarrow> py_exc + real) \<Rightarrow> py_exc + real" where
  "analysis_main tr =
     (case AlphaGraphAnalysis_init of
        Inl e \<Rightarrow> Inl e
      | Inr analyzer \<Rightarrow> calculate_theoretical_g_factor tr analyzer)"

section \<open>compute_gyration.py: the empirical ratio\<close>

subsection \<open>float64 values\<close>

text \<open>
  A numpy float64 is a finite number, an infinity or NaN. \<open>Finite 0\<close> is the
  positive zero; the negative zero is not modelled (a mean of squares is never
  negative). The values read from a file are taken to be finite.
\<close>

datatype np_float64 = Finite real | PosInf | NegInf | NaN

text \<open>
  The rounding of IEEE 754 binary64, to nearest with ties to even: \<open>bexp\<close> finds
  the binary exponent of a positive number (the search is cut off beyond the range
  of the format), the spacing of the representable numbers at that exponent is
  \<open>2 ^ (e - 52)\<close>, with exponents below \<open>-1022\<close> sharing the spacing of the
  subnormal numbers, and a result of magnitude \<open>2 ^ 1024\<close> or more is an infinity.
\<close>

fun bexp :: "nat \<Rightarrow> real \<Rightarrow> int" where
  "bexp 0 x = 0"
| "bexp (Suc n) x =
     (if 2 \<le> x then bexp n (x / 2) + 1
      else if x < 1 then bexp n (2 * x) - 1
      else 0)"

definition pow2 :: "int \<Rightarrow> real" where
  "pow2 e = (if 0 \<le> e then 2 ^ nat e else 1 / 2 ^ nat (- e))"

definition round64 :: "real \<Rightarrow> np_float64" where
  "round64 x =
     (if x = 0 then Finite 0
      else
        (let e = max (bexp 1100 \<bar>x\<bar>) (- 1022);
             u = pow2 (e - 52);
             y = of_int (round_half_even (x / u)) * u
         in if 2 ^ 1024 \<le> \<bar>y\<bar> then (if 0 < y then PosInf else NegInf)
            else Finite y))"

text \<open>
  The division of two float64 values by numpy: the correctly rounded quotient, and
  at a divisor of zero an infinity or NaN, with a warning and no exception.
\<close>

fun np_truediv :: "np_float64 \<Rightarrow> np_float64 \<Rightarrow> np_float64" where
  "np_truediv (Finite a) (Finite b) =
     (if b \<noteq> 0 then round64 (a / b)
      else if 0 < a then PosInf else if a < 0 then NegInf else NaN)"
| "np_truediv (Finite a) PosInf = Finite 0"
| "np_truediv (Finite a) NegInf = Finite 0"
| "np_truediv PosInf (Finite b) = (if b < 0 then NegInf else PosInf)"
| "np_truediv NegInf (Finite b) = (if b < 0 then PosInf else NegInf)"
| "np_truediv _ _ = NaN"

text \<open>
  The mean of a float64 array: NaN for an empty array; otherwise the sum over the
  count, read here as the exact mean (the rounding of numpy's summation is not
  modelled).
\<close>

definition np_mean :: "real list \<Rightarrow> np_float64" where
  "np_mean xs = (if xs = [] then NaN else Finite (sum_list xs / of_nat (length xs)))"

subsection \<open>numpy.loadtxt with \<^verbatim>\<open>comments='#'\<close>\<close>

text \<open>
  The text of a line from the first \<^verbatim>\<open>#\<close> on is dropped, the rest is split at runs
  of whitespace, and a line with no field is skipped. Each field is converted by
  Python's \<^verbatim>\<open>float\<close>, the parameter \<open>float_of\<close>; a field it rejects, or a row with
  another number of fields than the first, raises ValueError. The file is read
  as Latin-1, one character per byte, and the whitespace characters are Python's.
  The result is squeezed:
  no row gives a one-dimensional empty array, one row a one-dimensional array (a
  zero-dimensional one when it has a single field), a single column a one-dimensional
  array, and anything else a two-dimensional array.
\<close>

definition is_space :: "char \<Rightarrow> bool" where
  "is_space c =
     (c \<in> set [CHR '' '', CHR 0x09, CHR 0x0A, CHR 0x0B, CHR 0x0C, CHR 0x0D,
                CHR 0x1C, CHR 0x1D, CHR 0x1E, CHR 0x1F, CHR 0x85, CHR 0xA0])"

fun fields :: "string \<Rightarrow> string \<Rightarrow> string list" where
  "fields acc [] = (if acc = [] then [] else [rev acc])"
| "fields acc (c # cs) =
     (if is_space c then (if acc = [] then fields [] cs else rev acc # fields [] cs)
      else fields (c # acc) cs)"

definition strip_comment :: "string \<Rightarrow> string" where
  "strip_comment l = takeWhile (\<lambda>c. c \<noteq> CHR ''#'') l"

definition records :: "string list \<Rightarrow> string list list" where
  "records lines = filter (\<lambda>r. r \<noteq> []) (map (\<lambda>l. fields [] (strip_comment l)) lines)"

datatype ndarray = Array0 real | Array1 "real list" | Array2 "real list list"

fun squeeze :: "real list list \<Rightarrow> ndarray" where
  "squeeze [] = Array1 []"
| "squeeze [r] = (case r of [x] \<Rightarrow> Array0 x | _ \<Rightarrow> Array1 r)"
| "squeeze (r # rs) = (if length r = 1 then Array1 (map hd (r # rs)) else Array2 (r # rs))"

definition loadtxt :: "(string \<Rightarrow> real option) \<Rightarrow> string list \<Rightarrow> py_exc + ndarray" where
  "loadtxt float_of lines =
     (case those (map (\<lambda>r. those (map float_of r)) (records lines)) of
        None \<Rightarrow> Inl ValueError
      | Some rows \<Rightarrow>
          if list_all (\<lambda>r. length r = length (hd rows)) rows then Inr (squeeze rows)
          else Inl ValueError)"

text \<open>\<^verbatim>\<open>data.shape[1]\<close>: the shape of an array of fewer than two dimensions has no index 1.\<close>

fun shape1 :: "ndarray \<Rightarrow> py_exc + nat" where
  "shape1 (Array0 x) = Inl IndexError"
| "shape1 (Array1 xs) = Inl IndexError"
| "shape1 (Array2 rows) = Inr (case rows of [] \<Rightarrow> 0 | r # _ \<Rightarrow> length r)"

fun ndim :: "ndarray \<Rightarrow> nat" where
  "ndim (Array0 x) = 0"
| "ndim (Array1 xs) = 1"
| "ndim (Array2 rows) = 2"

text \<open>\<^verbatim>\<open>data[:, j]\<close> on a two-dimensional array whose rows have more than \<open>j\<close> fields.\<close>

fun column :: "ndarray \<Rightarrow> nat \<Rightarrow> real list" where
  "column (Array2 rows) j = map (\<lambda>r. r ! j) rows"
| "column _ j = []"

subsection \<open>get_avg_rg_from_file\<close>

text \<open>
  Every failure of the function prints a message and returns \<^verbatim>\<open>None\<close>. The value
  \<open>Inl f\<close> stands for that \<^verbatim>\<open>None\<close>, and \<open>f\<close> records which message was printed:
  file not found, no valid data, not enough data, or the message of the
  \<^verbatim>\<open>except Exception\<close> handler with the exception it caught.
\<close>

datatype load_failure = NotFound | NoValidData | NotEnoughData | Caught py_exc

record gyration_data =
  avg_rg_squared :: np_float64
  avg_rg :: np_float64
  timesteps :: "real list"
  rg_values :: "real list"
  equilibrated_start :: nat
  equilibrated_rg :: "real list"

text \<open>The window selection: the last quarter of the series, from \<open>len * 3 // 4\<close>.\<close>

definition select_equilibrated_start :: "nat \<Rightarrow> load_failure + nat" where
  "select_equilibrated_start n =
     (let start = (n * 3) div 4
      in if start = 0 \<and> n > 1 then Inr 1
         else if n \<le> 1 then Inl NotEnoughData
         else Inr start)"

text \<open>
  The statements of the \<^verbatim>\<open>try\<close> block after \<^verbatim>\<open>loadtxt\<close>. The outer sum is an
  exception that escapes to the handler, the inner one a \<^verbatim>\<open>return None\<close> of the block
  itself. In \<^verbatim>\<open>data.ndim == 0 or data.shape[1] < 2\<close> the second operand is evaluated
  only when the first is false.
\<close>

definition analyse :: "ndarray \<Rightarrow> py_exc + (load_failure + gyration_data)" where
  "analyse data =
     (if ndim data = 0 then Inr (Inl NoValidData)
      else case shape1 data of
        Inl e \<Rightarrow> Inl e
      | Inr ncols \<Rightarrow>
          if ncols < 2 then Inr (Inl NoValidData)
          else
            (let ts = column data 0;
                 rg = column data 1
             in case select_equilibrated_start (length rg) of
                  Inl f \<Rightarrow> Inr (Inl f)
                | Inr start \<Rightarrow>
                    (let eq = drop start rg
                     in Inr (Inr \<lparr>avg_rg_squared = np_mean (map (\<lambda>x. x ^ 2) eq),
                                  avg_rg = np_mean eq,
                                  timesteps = ts,
                                  rg_values = rg,
                                  equilibrated_start = start,
                                  equilibrated_rg = eq\<rparr>))))"

text \<open>
  The file is \<open>None\<close> when \<^verbatim>\<open>os.path.exists\<close> is false, and its lines otherwise.
\<close>

definition get_avg_rg_from_file ::
  "(string \<Rightarrow> real option) \<Rightarrow> string list option \<Rightarrow> load_failure + gyration_data" where
  "get_avg_rg_from_file float_of file =
     (case file of
        None \<Rightarrow> Inl NotFound
      | Some lines \<Rightarrow>
          (case loadtxt float_of lines of
             Inl e \<Rightarrow> Inl (Caught e)
           | Inr data \<Rightarrow>
               (case analyse data of
                  Inl e \<Rightarrow> Inl (Caught e)
                | Inr r \<Rightarrow> r)))"

subsection \<open>main\<close>

datatype sys_exit = SystemExit int

definition custom_ratio :: "gyration_data \<Rightarrow> gyration_data \<Rightarrow> np_float64" where
  "custom_ratio alpha_data tree_data =
     np_truediv (avg_rg_squared alpha_data) (avg_rg_squared tree_data)"

text \<open>
  \<^verbatim>\<open>main\<close> up to the ratio; the plots and the report that follow only read it.
\<close>

definition gyration_main ::
  "(string \<Rightarrow> real option) \<Rightarrow> string list option \<Rightarrow> string list option
     \<Rightarrow> sys_exit + np_float64" where
  "gyration_main float_of file_alpha file_tree =
     (case (get_avg_rg_from_file float_of file_alpha,
            get_avg_rg_from_file float_of file_tree) of
        (Inr alpha_data, Inr tree_data) \<Rightarrow> Inr (custom_ratio alpha_data tree_data)
      | _ \<Rightarrow> Inl (SystemExit 1))"

subsection \<open>Inputs for the worked examples\<close>

text \<open>
  Python's \<^verbatim>\<open>float\<close> on a non-empty string of ASCII decimal digits; every other
  string is rejected here, so the examples use digit strings only.
\<close>

definition float_of_digits :: "string \<Rightarrow> real option" where
  "float_of_digits s =
     (if s \<noteq> [] \<and> list_all (\<lambda>c. c \<in> set ''0123456789'') s
      then Some (of_nat (foldl (\<lambda>a c. 10 * a + (of_char c - 48)) (0::nat) s))
      else None)"

definition alpha_file :: "string list" where
  "alpha_file = [''# Time-averaged data for fix rg'', ''# TimeStep v_rg'',
     ''0 10'', ''1 10'', ''2 10'', ''3 10'', ''4 20'', ''5 20'', ''6 20'', ''7 20'']"

definition tree_file :: "string list" where
  "tree_file = [''# TimeStep v_rg'',
     ''0 5'', ''1 5'', ''2 5'', ''3 5'', ''4 10'', ''5 10'', ''6 10'', ''7 10'']"

definition zero_file :: "string list" where
  "zero_file = [''0 0'', ''1 0'']"

section \<open>Properties of the Alpha graph construction\<close>

lemma eval_alpha_edges: "eval_list alpha_edges_expr = Inl TypeError"
  by (simp add: alpha_edges_expr_def)

lemma create_alpha_graph_raises: "create_alpha_graph = Inl TypeError"
  by (simp add: create_alpha_graph_def eval_alpha_edges)

text \<open>
  Claim C1. The default factory is documented to build the 6-vertex, 9-edge Alpha
  graph. As written it returns no graph at all: evaluating the edge list raises.
  Among the eight elements of the list, \<^verbatim>\<open>(1, 5)\<close> joins two vertices of the same hub
  set and \<^verbatim>\<open>(1, 6)\<close> does not occur.
\<close>

theorem create_alpha_graph_returns_no_graph:
  "(\<forall>g. create_alpha_graph \<noteq> Inr g)
   \<and> length alpha_edges_expr = 8
   \<and> TupleLit 1 5 \<in> set alpha_edges_expr
   \<and> TupleLit 1 6 \<notin> set alpha_edges_expr"
  by (simp add: create_alpha_graph_raises) (simp add: alpha_edges_expr_def)

text \<open>
  Claim C2. Constructing the default graph raises TypeError before a graph is
  returned, because the tuple \<^verbatim>\<open>(3, 6)\<close> is called with \<^verbatim>\<open>(5, 2)\<close>; the constructor
  of the analysis and the whole theoretical path raise with it, whatever the linear
  algebra would have computed.
\<close>

theorem alpha_graph_construction_raises:
  "eval_elem (CallExpr (TupleLit 3 6) [5, 2]) = Inl TypeError
   \<and> create_alpha_graph = Inl TypeError
   \<and> AlphaGraphAnalysis_init = Inl TypeError
   \<and> (\<forall>tr. analysis_main tr = Inl TypeError)"
  by (simp add: create_alpha_graph_raises AlphaGraphAnalysis_init_def analysis_main_def)

subsection \<open>The edges that are attempted\<close>




subsection \<open>The benchmark constant\<close>

lemma digit_chars_numeral:
  "digit_chars (numeral k) =
     (if numeral k < (10::nat) then [''0123456789'' ! numeral k]
      else digit_chars (numeral k div 10) @ [''0123456789'' ! (numeral k mod 10)])"
  by (rule digit_chars.simps)

lemma digit_chars_0: "digit_chars 0 = ''0''"
  by (simp add: digit_chars.simps [of 0])

lemma frac_digits_numeral:
  "frac_digits (numeral k) n =
     frac_digits (pred_numeral k) (n div 10) @ [''0123456789'' ! (n mod 10)]"
  using frac_digits.simps(2) [of "pred_numeral k" n]
  by (simp only: numeral_eq_Suc [symmetric])

lemma format_17_49: "format_f 6 (17 / 49) = ''0.346939''"
  by (simp add: format_f_def round_half_even_def Let_def
      digit_chars_numeral digit_chars_0 frac_digits_numeral)

lemma format_109_245:
  "format_f 6 (109 / 245) = ''0.444898''" "format_f 3 (109 / 245) = ''0.445''"
  by (simp_all add: format_f_def round_half_even_def Let_def
      digit_chars_numeral digit_chars_0 frac_digits_numeral)

text \<open>
  Claim C10. Whatever graph the constructor has obtained, the benchmark it stores
  is 17/49, and the line printed for it reads 0.346939 beside the label (109/245).
  The fraction 109/245 that the label names prints as 0.444898, and to three
  places as the 0.445 of the plot title; the benchmark and the fraction differ.
\<close>

theorem expected_g_differs_from_its_label:
  "expected_g_from_paper (init_attributes g) = 17 / 49
   \<and> expected_line (init_attributes g) = ''Expected from paper:  0.346939 (109/245)''
   \<and> format_f 6 (109 / 245) = ''0.444898''
   \<and> plot_title =
       ''Tetracyclic '' @ [CHR 0x22] @ ''Alpha'' @ [CHR 0x22] @ '' Polymer Graph (g ''
         @ [CHR 0xE2, CHR 0x89, CHR 0x88] @ '' '' @ format_f 3 (109 / 245) @ '')''
   \<and> expected_g_from_paper (init_attributes g) \<noteq> 109 / 245"
  by (simp add: init_attributes_def expected_line_def plot_title_def
      format_17_49 format_109_245)

section \<open>Properties of the empirical pipeline\<close>

subsection \<open>The worked inputs\<close>

lemma bexp_numeral:
  "bexp (numeral k) x =
     (if 2 \<le> x then bexp (pred_numeral k) (x / 2) + 1
      else if x < 1 then bexp (pred_numeral k) (2 * x) - 1
      else 0)"
  by (simp add: numeral_eq_Suc)

lemma round64_exact: "round64 4 = Finite 4" "round64 (1 / 4) = Finite (1 / 4)"
  by (simp_all add: round64_def bexp_numeral pow2_def round_half_even_def Let_def)

lemma those_length: "those xs = Some ys \<Longrightarrow> length ys = length xs"
  by (induction xs arbitrary: ys) (auto split: option.splits)

lemma records_alpha_file:
  "records alpha_file =
     [[''0'', ''10''], [''1'', ''10''], [''2'', ''10''], [''3'', ''10''],
      [''4'', ''20''], [''5'', ''20''], [''6'', ''20''], [''7'', ''20'']]"
  by (simp add: records_def alpha_file_def strip_comment_def is_space_def)

lemma records_tree_file:
  "records tree_file =
     [[''0'', ''5''], [''1'', ''5''], [''2'', ''5''], [''3'', ''5''],
      [''4'', ''10''], [''5'', ''10''], [''6'', ''10''], [''7'', ''10'']]"
  by (simp add: records_def tree_file_def strip_comment_def is_space_def)

lemma records_zero_file: "records zero_file = [[''0'', ''0''], [''1'', ''0'']]"
  by (simp add: records_def zero_file_def strip_comment_def is_space_def)

lemma float_of_digits_values:
  "float_of_digits ''0'' = Some 0" "float_of_digits ''1'' = Some 1"
  "float_of_digits ''2'' = Some 2" "float_of_digits ''3'' = Some 3"
  "float_of_digits ''4'' = Some 4" "float_of_digits ''5'' = Some 5"
  "float_of_digits ''6'' = Some 6" "float_of_digits ''7'' = Some 7"
  "float_of_digits ''10'' = Some 10" "float_of_digits ''20'' = Some 20"
  by (simp_all add: float_of_digits_def)

lemma loadtxt_alpha_file:
  "loadtxt float_of_digits alpha_file =
     Inr (Array2 [[0, 10], [1, 10], [2, 10], [3, 10], [4, 20], [5, 20], [6, 20], [7, 20]])"
  by (simp add: loadtxt_def records_alpha_file float_of_digits_values)

lemma loadtxt_tree_file:
  "loadtxt float_of_digits tree_file =
     Inr (Array2 [[0, 5], [1, 5], [2, 5], [3, 5], [4, 10], [5, 10], [6, 10], [7, 10]])"
  by (simp add: loadtxt_def records_tree_file float_of_digits_values)

lemma loadtxt_zero_file:
  "loadtxt float_of_digits zero_file = Inr (Array2 [[0, 0], [1, 0]])"
  by (simp add: loadtxt_def records_zero_file float_of_digits_values)

lemma get_alpha:
  "get_avg_rg_from_file float_of_digits (Some alpha_file) =
     Inr \<lparr>avg_rg_squared = Finite 400, avg_rg = Finite 20,
          timesteps = [0, 1, 2, 3, 4, 5, 6, 7],
          rg_values = [10, 10, 10, 10, 20, 20, 20, 20],
          equilibrated_start = 6, equilibrated_rg = [20, 20]\<rparr>"
  by (simp add: get_avg_rg_from_file_def loadtxt_alpha_file analyse_def
      select_equilibrated_start_def np_mean_def Let_def)

lemma get_tree:
  "get_avg_rg_from_file float_of_digits (Some tree_file) =
     Inr \<lparr>avg_rg_squared = Finite 100, avg_rg = Finite 10,
          timesteps = [0, 1, 2, 3, 4, 5, 6, 7],
          rg_values = [5, 5, 5, 5, 10, 10, 10, 10],
          equilibrated_start = 6, equilibrated_rg = [10, 10]\<rparr>"
  by (simp add: get_avg_rg_from_file_def loadtxt_tree_file analyse_def
      select_equilibrated_start_def np_mean_def Let_def)

lemma get_zero:
  "get_avg_rg_from_file float_of_digits (Some zero_file) =
     Inr \<lparr>avg_rg_squared = Finite 0, avg_rg = Finite 0,
          timesteps = [0, 1], rg_values = [0, 0],
          equilibrated_start = 1, equilibrated_rg = [0]\<rparr>"
  by (simp add: get_avg_rg_from_file_def loadtxt_zero_file analyse_def
      select_equilibrated_start_def np_mean_def Let_def)

text \<open>
  Claim C6. On the Alpha series \<open>10, 10, 10, 10, 20, 20, 20, 20\<close> and the Tree series
  \<open>5, 5, 5, 5, 10, 10, 10, 10\<close> (timesteps 0 to 7, below a comment header) the
  window starts at index 6 in both, the equilibrated values are \<open>[20, 20]\<close> and
  \<open>[10, 10]\<close>, the mean squares are 400 and 100, and the ratio is 4. Every number
  on the way is a small integer, which float64 holds exactly.
\<close>

theorem end_to_end_scenario:
  "get_avg_rg_from_file float_of_digits (Some alpha_file) =
     Inr \<lparr>avg_rg_squared = Finite 400, avg_rg = Finite 20,
          timesteps = [0, 1, 2, 3, 4, 5, 6, 7],
          rg_values = [10, 10, 10, 10, 20, 20, 20, 20],
          equilibrated_start = 6, equilibrated_rg = [20, 20]\<rparr>
   \<and> get_avg_rg_from_file float_of_digits (Some tree_file) =
     Inr \<lparr>avg_rg_squared = Finite 100, avg_rg = Finite 10,
          timesteps = [0, 1, 2, 3, 4, 5, 6, 7],
          rg_values = [5, 5, 5, 5, 10, 10, 10, 10],
          equilibrated_start = 6, equilibrated_rg = [10, 10]\<rparr>
   \<and> gyration_main float_of_digits (Some alpha_file) (Some tree_file) = Inr (Finite 4)"
  by (simp add: get_alpha get_tree gyration_main_def custom_ratio_def round64_exact)

subsection \<open>The equilibration window\<close>

lemma select_start_bounds:
  "select_equilibrated_start n = Inr start \<Longrightarrow> 0 < start \<and> start < n"
  by (auto simp: select_equilibrated_start_def Let_def split: if_splits)

lemma select_start_value:
  "select_equilibrated_start n =
     (if n \<le> 1 then Inl NotEnoughData
      else Inr (if (3 * n) div 4 = 0 then 1 else (3 * n) div 4))"
  by (auto simp: select_equilibrated_start_def Let_def mult.commute)

lemma analyse_Inr:
  assumes "analyse data = Inr (Inr d)"
  shows "select_equilibrated_start (length (rg_values d)) = Inr (equilibrated_start d)
         \<and> equilibrated_rg d = drop (equilibrated_start d) (rg_values d)
         \<and> avg_rg d = np_mean (equilibrated_rg d)
         \<and> avg_rg_squared d = np_mean (map (\<lambda>x. x ^ 2) (equilibrated_rg d))"
  using assms
  by (auto simp: analyse_def Let_def split: if_splits sum.splits)

lemma get_Inr:
  assumes "get_avg_rg_from_file float_of file = Inr d"
  shows "select_equilibrated_start (length (rg_values d)) = Inr (equilibrated_start d)
         \<and> equilibrated_rg d = drop (equilibrated_start d) (rg_values d)
         \<and> avg_rg d = np_mean (equilibrated_rg d)
         \<and> avg_rg_squared d = np_mean (map (\<lambda>x. x ^ 2) (equilibrated_rg d))"
proof -
  from assms obtain data where "analyse data = Inr (Inr d)"
    by (auto simp: get_avg_rg_from_file_def split: option.splits sum.splits)
  then show ?thesis by (rule analyse_Inr)
qed

text \<open>
  Claim C5. For a series of length \<open>n\<close> the window selection fails with the
  not-enough-data message when \<open>n \<le> 1\<close>; otherwise the start is \<open>3 * n div 4\<close>,
  forced to 1 should that be 0. A start that is returned satisfies
  \<open>0 < start < n\<close>; whenever the loader returns data, its start was selected this way
  from the length of the series and the equilibrated values are the series from that
  index on. The starts for \<open>n = 4, 5, 3, 2\<close> are \<open>3, 3, 2, 1\<close>.
\<close>

theorem select_equilibrated_start_spec:
  "select_equilibrated_start n =
     (if n \<le> 1 then Inl NotEnoughData
      else Inr (if (3 * n) div 4 = 0 then 1 else (3 * n) div 4))
   \<and> (\<forall>start. select_equilibrated_start n = Inr start \<longrightarrow> 0 < start \<and> start < n)
   \<and> (\<forall>float_of file d. get_avg_rg_from_file float_of file = Inr d \<longrightarrow>
         select_equilibrated_start (length (rg_values d)) = Inr (equilibrated_start d)
         \<and> equilibrated_rg d = drop (equilibrated_start d) (rg_values d))
   \<and> select_equilibrated_start 4 = Inr 3
   \<and> select_equilibrated_start 5 = Inr 3
   \<and> select_equilibrated_start 3 = Inr 2
   \<and> select_equilibrated_start 2 = Inr 1"
proof -
  have "select_equilibrated_start 4 = Inr 3" "select_equilibrated_start 5 = Inr 3"
    "select_equilibrated_start 3 = Inr 2" "select_equilibrated_start 2 = Inr 1"
    by (simp_all add: select_equilibrated_start_def)
  then show ?thesis
    using select_start_value [of n] select_start_bounds [of n] get_Inr by blast
qed

text \<open>The theorem at \<open>n = 8\<close>, the length of the Alpha series above.\<close>

theorem select_equilibrated_start_spec_witness:
  "select_equilibrated_start 8 = Inr 6 \<and> (0::nat) < 6 \<and> (6::nat) < 8
   \<and> get_avg_rg_from_file float_of_digits (Some alpha_file) =
       Inr \<lparr>avg_rg_squared = Finite 400, avg_rg = Finite 20,
            timesteps = [0, 1, 2, 3, 4, 5, 6, 7],
            rg_values = [10, 10, 10, 10, 20, 20, 20, 20],
            equilibrated_start = 6, equilibrated_rg = [20, 20]\<rparr>
   \<and> drop 6 [10, 10, 10, 10, 20, 20, 20, 20] = [20, 20 :: real]"
  using select_equilibrated_start_spec [of 8] get_alpha by simp

subsection \<open>Loading too few records\<close>

lemma analyse_too_few:
  assumes "length rows < 2"
  shows "analyse (squeeze rows) \<in> {Inr (Inl NoValidData), Inl IndexError}"
proof (cases rows)
  case Nil
  then show ?thesis by (simp add: analyse_def)
next
  case (Cons r rs)
  with assms have rs: "rs = []" by simp
  show ?thesis
  proof (cases r)
    case Nil
    with Cons rs show ?thesis by (simp add: analyse_def)
  next
    case (Cons x xs)
    with \<open>rows = r # rs\<close> rs show ?thesis by (cases xs) (simp_all add: analyse_def)
  qed
qed

lemma comment_line_no_record: "records [CHR ''#'' # c] = []"
  by (simp add: records_def strip_comment_def)

text \<open>
  Claim C8. An input with fewer than two records left after comments and blank lines
  are skipped never yields a series: the function returns \<^verbatim>\<open>None\<close>, after the
  no-valid-data message or after the handler caught the IndexError of
  \<^verbatim>\<open>data.shape[1]\<close> or a ValueError of the conversion. A file that holds one comment
  line and nothing else fails through the caught IndexError, whatever the comment says.
\<close>

theorem too_few_records_fail:
  "(length (records lines) < 2 \<longrightarrow>
      get_avg_rg_from_file float_of (Some lines)
        \<in> {Inl NoValidData, Inl (Caught IndexError), Inl (Caught ValueError)})
   \<and> get_avg_rg_from_file float_of (Some [CHR ''#'' # c]) = Inl (Caught IndexError)"
proof (intro conjI impI)
  assume few: "length (records lines) < 2"
  show "get_avg_rg_from_file float_of (Some lines)
        \<in> {Inl NoValidData, Inl (Caught IndexError), Inl (Caught ValueError)}"
  proof (cases "loadtxt float_of lines")
    case (Inl e)
    then have "e = ValueError"
      by (auto simp: loadtxt_def split: option.splits if_splits)
    with Inl show ?thesis by (simp add: get_avg_rg_from_file_def)
  next
    case (Inr data)
    then obtain rows where
      rows: "those (map (\<lambda>r. those (map float_of r)) (records lines)) = Some rows"
      and data: "data = squeeze rows"
      by (auto simp: loadtxt_def split: option.splits if_splits)
    from rows have "length rows = length (records lines)"
      using those_length by fastforce
    with few have "length rows < 2" by simp
    from analyse_too_few [OF this] data Inr show ?thesis
      by (auto simp: get_avg_rg_from_file_def)
  qed
next
  show "get_avg_rg_from_file float_of (Some [CHR ''#'' # c]) = Inl (Caught IndexError)"
    by (simp add: get_avg_rg_from_file_def loadtxt_def comment_line_no_record analyse_def)
qed

text \<open>The theorem at a file of a header, a blank line and a single record.\<close>

theorem too_few_records_fail_witness:
  "length (records [''# TimeStep v_rg'', '''', ''0 5'']) < 2
   \<and> get_avg_rg_from_file float_of_digits (Some [''# TimeStep v_rg'', '''', ''0 5''])
       = Inl (Caught IndexError)"
proof -
  have r: "records [''# TimeStep v_rg'', '''', ''0 5''] = [[''0'', ''5'']]"
    by (simp add: records_def strip_comment_def is_space_def)
  have "get_avg_rg_from_file float_of_digits (Some [''# TimeStep v_rg'', '''', ''0 5''])
       = Inl (Caught IndexError)"
    by (simp add: get_avg_rg_from_file_def loadtxt_def r float_of_digits_values analyse_def)
  then show ?thesis
    using too_few_records_fail [of "[''# TimeStep v_rg'', '''', ''0 5'']" float_of_digits]
    by (simp add: r)
qed

subsection \<open>The ratio\<close>

text \<open>
  Claim C7, as the code has it. Once both files have loaded, the ratio step never
  fails: \<^verbatim>\<open>main\<close> goes on with the float64 quotient of the two mean squares. For
  finite mean squares and a tree mean square other than 0 that is the correctly
  rounded quotient, an infinity where it overflows. For a tree mean square of 0 it
  is not an error: it is \<open>+inf\<close> for a positive Alpha mean square and NaN for an
  Alpha mean square of 0.
\<close>

theorem custom_ratio_never_raises:
  assumes "get_avg_rg_from_file float_of file_alpha = Inr alpha_data"
    and "get_avg_rg_from_file float_of file_tree = Inr tree_data"
  shows "gyration_main float_of file_alpha file_tree = Inr (custom_ratio alpha_data tree_data)
     \<and> (\<forall>x y. avg_rg_squared alpha_data = Finite x \<and> avg_rg_squared tree_data = Finite y
            \<and> y \<noteq> 0 \<longrightarrow> custom_ratio alpha_data tree_data = round64 (x / y))
     \<and> (\<forall>x. avg_rg_squared alpha_data = Finite x \<and> 0 < x
            \<and> avg_rg_squared tree_data = Finite 0 \<longrightarrow>
            custom_ratio alpha_data tree_data = PosInf)
     \<and> (avg_rg_squared alpha_data = Finite 0 \<and> avg_rg_squared tree_data = Finite 0 \<longrightarrow>
            custom_ratio alpha_data tree_data = NaN)"
proof (intro conjI allI impI)
  show "gyration_main float_of file_alpha file_tree = Inr (custom_ratio alpha_data tree_data)"
    using assms by (simp add: gyration_main_def)
next
  fix x y
  assume "avg_rg_squared alpha_data = Finite x \<and> avg_rg_squared tree_data = Finite y \<and> y \<noteq> 0"
  then show "custom_ratio alpha_data tree_data = round64 (x / y)"
    by (simp add: custom_ratio_def)
next
  fix x
  assume "avg_rg_squared alpha_data = Finite x \<and> 0 < x \<and> avg_rg_squared tree_data = Finite 0"
  then show "custom_ratio alpha_data tree_data = PosInf"
    by (simp add: custom_ratio_def)
next
  assume "avg_rg_squared alpha_data = Finite 0 \<and> avg_rg_squared tree_data = Finite 0"
  then show "custom_ratio alpha_data tree_data = NaN"
    by (simp add: custom_ratio_def)
qed

text \<open>
  The theorem at three pairs of files: the Tree series over the Alpha series (mean
  squares 100 and 400, ratio 1/4), the Tree series over a series of zeros (ratio
  \<open>+inf\<close>), and the series of zeros over itself (ratio NaN).
\<close>

theorem custom_ratio_never_raises_witness:
  "get_avg_rg_from_file float_of_digits (Some tree_file) =
     Inr \<lparr>avg_rg_squared = Finite 100, avg_rg = Finite 10,
          timesteps = [0, 1, 2, 3, 4, 5, 6, 7],
          rg_values = [5, 5, 5, 5, 10, 10, 10, 10],
          equilibrated_start = 6, equilibrated_rg = [10, 10]\<rparr>
   \<and> get_avg_rg_from_file float_of_digits (Some alpha_file) =
     Inr \<lparr>avg_rg_squared = Finite 400, avg_rg = Finite 20,
          timesteps = [0, 1, 2, 3, 4, 5, 6, 7],
          rg_values = [10, 10, 10, 10, 20, 20, 20, 20],
          equilibrated_start = 6, equilibrated_rg = [20, 20]\<rparr>
   \<and> get_avg_rg_from_file float_of_digits (Some zero_file) =
     Inr \<lparr>avg_rg_squared = Finite 0, avg_rg = Finite 0,
          timesteps = [0, 1], rg_values = [0, 0],
          equilibrated_start = 1, equilibrated_rg = [0]\<rparr>
   \<and> (400 :: real) \<noteq> 0 \<and> (0 :: real) < 100
   \<and> gyration_main float_of_digits (Some tree_file) (Some alpha_file) = Inr (Finite (1 / 4))
   \<and> gyration_main float_of_digits (Some tree_file) (Some zero_file) = Inr PosInf
   \<and> gyration_main float_of_digits (Some zero_file) (Some zero_file) = Inr NaN"
  using custom_ratio_never_raises [OF get_tree get_alpha]
    custom_ratio_never_raises [OF get_tree get_zero]
    custom_ratio_never_raises [OF get_zero get_zero] get_tree get_alpha get_zero
  by (simp add: round64_exact)

text \<open>
  Claim C7 as stated fails: with the Alpha series above and a tree file of two
  records of value 0, the tree mean square is 0 and \<^verbatim>\<open>main\<close> does not fail; the
  ratio is \<open>+inf\<close>.
\<close>

theorem zero_tree_counterexample:
  "get_avg_rg_from_file float_of_digits (Some zero_file) =
     Inr \<lparr>avg_rg_squared = Finite 0, avg_rg = Finite 0,
          timesteps = [0, 1], rg_values = [0, 0],
          equilibrated_start = 1, equilibrated_rg = [0]\<rparr>
   \<and> gyration_main float_of_digits (Some alpha_file) (Some zero_file) = Inr PosInf"
  by (simp add: get_alpha get_zero gyration_main_def custom_ratio_def)

end
